theory Spec2Isabelle
  imports Complex_Main "HOL-Library.AList"
begin

section \<open>Python values\<close>

text \<open>
  The program is dynamically typed: what a telemetry read, a JSON document or a
  dictionary lookup yields is a Python object, and several branches of the source are
  decided by the class of that object (\<^verbatim>\<open>isinstance\<close>, a missing method, a
  failing conversion). Objects are therefore a datatype, exceptions are values, and a call
  that can raise returns \<open>pyexc + 'a\<close> with \<open>Inl\<close> for the exception.
  A \<^verbatim>\<open>float\<close> is a real number: rounding, NaN and the infinities are not modelled.
  A \<^verbatim>\<open>dict\<close> is an association list in insertion order with distinct keys.
\<close>

datatype pyexc =
  KeyError | ValueError | TypeError | AttributeError
  | JSONDecodeError | HTTPError | ConnectionError | RuntimeError

datatype pyval =
  PNone
  | PBool bool
  | PInt int
  | PFloat real
  | PStr string
  | PList "pyval list"
  | PDict "(string \<times> pyval) list"

type_synonym 'a res = "pyexc + 'a"

text \<open>\<^verbatim>\<open>d[k] = v\<close> on a dict: an existing key keeps its position, a new key goes last.\<close>

definition dict_set :: "('k \<times> 'v) list \<Rightarrow> 'k \<Rightarrow> 'v \<Rightarrow> ('k \<times> 'v) list" where
  "dict_set d k v = AList.update k v d"

text \<open>A dict comprehension \<^verbatim>\<open>{k: v for k, v in items}\<close> inserts the items one by one.\<close>

definition dict_comp :: "('k \<times> 'v) list \<Rightarrow> ('k \<times> 'v) list" where
  "dict_comp items = foldl (\<lambda>d (k, v). dict_set d k v) [] items"

text \<open>\<^verbatim>\<open>obj.get(k, default)\<close>: only a dict has the method.\<close>

fun py_get :: "pyval \<Rightarrow> string \<Rightarrow> pyval \<Rightarrow> pyval res" where
  "py_get (PDict d) k dflt = Inr (case map_of d k of Some v \<Rightarrow> v | None \<Rightarrow> dflt)"
| "py_get _ k dflt = Inl AttributeError"

text \<open>\<^verbatim>\<open>obj[k]\<close> with a string key: KeyError on a dict without the key, TypeError on
  every other object (a list or a string wants an integer index, the rest is not
  subscriptable).\<close>

fun py_getitem :: "pyval \<Rightarrow> string \<Rightarrow> pyval res" where
  "py_getitem (PDict d) k = (case map_of d k of Some v \<Rightarrow> Inr v | None \<Rightarrow> Inl KeyError)"
| "py_getitem _ k = Inl TypeError"

text \<open>\<^verbatim>\<open>obj.items()\<close>.\<close>

fun py_items :: "pyval \<Rightarrow> (string \<times> pyval) list res" where
  "py_items (PDict d) = Inr d"
| "py_items _ = Inl AttributeError"

text \<open>\<^verbatim>\<open>for x in obj\<close>: a list yields its elements, a dict its keys, a string its
  characters; nothing else is iterable.\<close>

fun py_iter :: "pyval \<Rightarrow> pyval list res" where
  "py_iter (PList xs) = Inr xs"
| "py_iter (PDict d) = Inr (map (\<lambda>kv. PStr (fst kv)) d)"
| "py_iter (PStr s) = Inr (map (\<lambda>c. PStr [c]) s)"
| "py_iter _ = Inl TypeError"

text \<open>\<^verbatim>\<open>obj == n\<close> for an integer literal \<open>n\<close>: numbers compare by value and
  \<^verbatim>\<open>True\<close>, \<^verbatim>\<open>False\<close> are the integers 1 and 0.\<close>

fun py_eq_int :: "pyval \<Rightarrow> int \<Rightarrow> bool" where
  "py_eq_int (PInt i) n = (i = n)"
| "py_eq_int (PBool b) n = ((if b then 1 else 0) = n)"
| "py_eq_int (PFloat r) n = (r = of_int n)"
| "py_eq_int _ n = False"

subsection \<open>\<^verbatim>\<open>str(int)\<close> and \<^verbatim>\<open>int(str)\<close>\<close>

definition digit_char :: "nat \<Rightarrow> char" where
  "digit_char d = ''0123456789'' ! d"

definition digit_val :: "char \<Rightarrow> nat option" where
  "digit_val c = map_of (zip ''0123456789'' [0, 1, 2, 3, 4, 5, 6, 7, 8, 9]) c"

fun digits :: "nat \<Rightarrow> string" where
  "digits n = (if n < 10 then [digit_char n] else digits (n div 10) @ [digit_char (n mod 10)])"

declare digits.simps [simp del]

definition str_int :: "int \<Rightarrow> string" where
  "str_int k = (if k < 0 then CHR ''-'' # digits (nat (- k)) else digits (nat k))"

text \<open>
  \<^verbatim>\<open>int(s)\<close> in base 10 on an ASCII string: surrounding whitespace is stripped, one sign is
  allowed, then come decimal digits, where single underscores may stand between two
  digits. Everything else is a ValueError. (Python also accepts the decimal digits of
  other scripts; a \<open>string\<close> here is a list of 8-bit characters and has none.)
\<close>

definition is_space :: "char \<Rightarrow> bool" where
  "is_space c = (c \<in> set [CHR '' '', CHR 0x09, CHR 0x0A, CHR 0x0B, CHR 0x0C, CHR 0x0D])"

definition strip :: "string \<Rightarrow> string" where
  "strip s = rev (dropWhile is_space (rev (dropWhile is_space s)))"

fun parse_dec :: "nat \<Rightarrow> string \<Rightarrow> nat option" where
  "parse_dec acc [] = Some acc"
| "parse_dec acc [c] =
     (case digit_val c of Some d \<Rightarrow> Some (acc * 10 + d) | None \<Rightarrow> None)"
| "parse_dec acc (c # c' # cs) =
     (case digit_val c of
        Some d \<Rightarrow> parse_dec (acc * 10 + d) (c' # cs)
      | None \<Rightarrow>
          if c = CHR ''_'' then
            (case digit_val c' of Some d' \<Rightarrow> parse_dec (acc * 10 + d') cs | None \<Rightarrow> None)
          else None)"

definition parse_nat :: "string \<Rightarrow> nat option" where
  "parse_nat s =
     (case s of
        [] \<Rightarrow> None
      | c # cs \<Rightarrow> (case digit_val c of Some d \<Rightarrow> parse_dec d cs | None \<Rightarrow> None))"

definition int_of_str :: "string \<Rightarrow> int res" where
  "int_of_str s =
     (case strip s of
        [] \<Rightarrow> Inl ValueError
      | c # cs \<Rightarrow>
          if c = CHR ''-'' then
            (case parse_nat cs of Some n \<Rightarrow> Inr (- int n) | None \<Rightarrow> Inl ValueError)
          else if c = CHR ''+'' then
            (case parse_nat cs of Some n \<Rightarrow> Inr (int n) | None \<Rightarrow> Inl ValueError)
          else
            (case parse_nat (c # cs) of Some n \<Rightarrow> Inr (int n) | None \<Rightarrow> Inl ValueError))"

text \<open>\<^verbatim>\<open>int(obj)\<close>: a float is truncated towards zero, a string is parsed, and
  \<^verbatim>\<open>None\<close>, lists and dicts are a TypeError.\<close>

fun py_int :: "pyval \<Rightarrow> int res" where
  "py_int (PInt i) = Inr i"
| "py_int (PBool b) = Inr (if b then 1 else 0)"
| "py_int (PFloat r) = Inr (if r < 0 then \<lceil>r\<rceil> else \<lfloor>r\<rfloor>)"
| "py_int (PStr s) = int_of_str s"
| "py_int _ = Inl TypeError"

section \<open>The environment\<close>

text \<open>
  The \<^verbatim>\<open>json\<close> module and \<^verbatim>\<open>repr\<close> are library code, not code of this program, and
  are parameters of the model: \<open>json_loads\<close> is \<^verbatim>\<open>json.load\<close> on the text of a file or
  of a response body (\<open>None\<close> when it raises), \<open>json_dumps\<close> is the text
  \<^verbatim>\<open>json.dump(obj, f, indent=2)\<close> writes, and \<open>py_repr\<close> is what \<^verbatim>\<open>str\<close> returns for
  a float, a list or a dict.
\<close>

record pylib =
  json_loads :: "string \<Rightarrow> pyval option"
  json_dumps :: "pyval \<Rightarrow> string"
  py_repr :: "pyval \<Rightarrow> string"

definition py_str :: "pylib \<Rightarrow> pyval \<Rightarrow> string" where
  "py_str L v =
     (case v of
        PStr s \<Rightarrow> s
      | PInt i \<Rightarrow> str_int i
      | PBool b \<Rightarrow> (if b then ''True'' else ''False'')
      | PNone \<Rightarrow> ''None''
      | _ \<Rightarrow> py_repr L v)"

text \<open>
  What \<^verbatim>\<open>requests.get\<close> meets: no response at all (connection refused, timeout), or a
  response with a status code and a body.
\<close>

datatype http_result = NoResponse | Response nat string

text \<open>
  The world the program runs in. A file is its text, or \<open>None\<close> when it does not exist
  (a file that exists and cannot be opened for reading behaves as a file whose text does
  not parse: both end in the same handler). \<open>config_writable\<close> and \<open>cache_writable\<close>
  say whether opening the file for writing succeeds; \<open>clock\<close> is what \<^verbatim>\<open>time.time()\<close>
  returns; \<open>remote\<close> is what the server at \<^verbatim>\<open>PRO_LIST_URL\<close> would answer now and
  \<open>fetch_seconds\<close> how long the request takes; \<open>requests_made\<close> counts the requests
  sent. The configuration directory can always be created.
\<close>

record world =
  config_file :: "string option"
  cache_file :: "string option"
  config_writable :: bool
  cache_writable :: bool
  clock :: real
  remote :: http_result
  fetch_seconds :: real
  requests_made :: nat

section \<open>\<^verbatim>\<open>config_manager.py\<close>\<close>

definition read_config :: "pylib \<Rightarrow> world \<Rightarrow> pyval" where
  "read_config L w =
     (case config_file w of
        None \<Rightarrow> PDict []
      | Some txt \<Rightarrow> (case json_loads L txt of None \<Rightarrow> PDict [] | Some cfg \<Rightarrow> cfg))"

definition write_config :: "pylib \<Rightarrow> pyval \<Rightarrow> world \<Rightarrow> world" where
  "write_config L cfg w =
     (if config_writable w then w\<lparr>config_file := Some (json_dumps L cfg)\<rparr> else w)"

text \<open>\<^verbatim>\<open>isinstance(ts, (int, float))\<close> holds for a bool as well.\<close>

definition get_last_pro_update :: "pylib \<Rightarrow> world \<Rightarrow> real res" where
  "get_last_pro_update L w =
     (case py_get (read_config L w) ''last_pro_update'' PNone of
        Inl e \<Rightarrow> Inl e
      | Inr ts \<Rightarrow>
          Inr (case ts of
                 PInt i \<Rightarrow> of_int i
               | PBool b \<Rightarrow> (if b then 1 else 0)
               | PFloat r \<Rightarrow> r
               | _ \<Rightarrow> 0))"

text \<open>The item assignment \<^verbatim>\<open>cfg["last_pro_update"] = ...\<close> is a TypeError on every object
  that is not a dict.\<close>

definition set_last_pro_update :: "pylib \<Rightarrow> real \<Rightarrow> world \<Rightarrow> unit res \<times> world" where
  "set_last_pro_update L timestamp w =
     (case read_config L w of
        PDict cfg \<Rightarrow>
          (Inr (), write_config L (PDict (dict_set cfg ''last_pro_update'' (PFloat timestamp))) w)
      | _ \<Rightarrow> (Inl TypeError, w))"

section \<open>\<^verbatim>\<open>prolist_manager.py\<close>\<close>

type_synonym pro_map = "(int \<times> string) list"

text \<open>The pairs \<^verbatim>\<open>(int(k), str(v))\<close> of the comprehension in \<^verbatim>\<open>_read_cache\<close>; the first
  key that is not an integer raises out of it.\<close>

fun cache_entries :: "pylib \<Rightarrow> (string \<times> pyval) list \<Rightarrow> (int \<times> string) list res" where
  "cache_entries L [] = Inr []"
| "cache_entries L ((k, v) # rest) =
     (case int_of_str k of
        Inl e \<Rightarrow> Inl e
      | Inr i \<Rightarrow>
          (case cache_entries L rest of
             Inl e \<Rightarrow> Inl e
           | Inr kvs \<Rightarrow> Inr ((i, py_str L v) # kvs)))"

definition read_cache :: "pylib \<Rightarrow> world \<Rightarrow> pro_map" where
  "read_cache L w =
     (case cache_file w of
        None \<Rightarrow> []
      | Some txt \<Rightarrow>
          (case json_loads L txt of
             None \<Rightarrow> []
           | Some data \<Rightarrow>
               (case py_items data of
                  Inl e \<Rightarrow> []
                | Inr items \<Rightarrow>
                    (case cache_entries L items of
                       Inl e \<Rightarrow> []
                     | Inr kvs \<Rightarrow> dict_comp kvs))))"

text \<open>The object \<^verbatim>\<open>{str(k): v for k, v in pro_map.items()}\<close> that \<^verbatim>\<open>_write_cache\<close> dumps.\<close>

definition cache_object :: "pro_map \<Rightarrow> pyval" where
  "cache_object pro_map = PDict (dict_comp (map (\<lambda>(k, v). (str_int k, PStr v)) pro_map))"

definition write_cache :: "pylib \<Rightarrow> pro_map \<Rightarrow> world \<Rightarrow> world" where
  "write_cache L pro_map w =
     (if cache_writable w then w\<lparr>cache_file := Some (json_dumps L (cache_object pro_map))\<rparr>
      else w)"

text \<open>\<^verbatim>\<open>requests.get(PRO_LIST_URL, timeout=10)\<close>: one request is sent and time passes.\<close>

definition requests_get :: "world \<Rightarrow> http_result \<times> world" where
  "requests_get w =
     (remote w, w\<lparr>clock := clock w + fetch_seconds w, requests_made := requests_made w + 1\<rparr>)"

text \<open>\<^verbatim>\<open>response.raise_for_status()\<close> raises on the client and server error codes.\<close>

definition raise_for_status :: "nat \<Rightarrow> bool" where
  "raise_for_status status = (400 \<le> status \<and> status < 600)"

text \<open>The body of the inner \<^verbatim>\<open>try\<close> of \<^verbatim>\<open>fetch_and_cache_pro_list\<close>: one item of the
  payload.\<close>

definition parse_item :: "pylib \<Rightarrow> pyval \<Rightarrow> (int \<times> string) res" where
  "parse_item L item =
     (case py_getitem item ''UserID'' of
        Inl e \<Rightarrow> Inl e
      | Inr u \<Rightarrow>
          (case py_int u of
             Inl e \<Rightarrow> Inl e
           | Inr uid \<Rightarrow>
               (case py_getitem item ''Name'' of
                  Inl e \<Rightarrow> Inl e
                | Inr n \<Rightarrow> Inr (uid, py_str L n))))"

text \<open>The loop over the payload: \<^verbatim>\<open>except (KeyError, ValueError, TypeError): continue\<close>.\<close>

fun parse_items :: "pylib \<Rightarrow> pyval list \<Rightarrow> pro_map \<Rightarrow> pro_map res" where
  "parse_items L [] pro_map = Inr pro_map"
| "parse_items L (item # items) pro_map =
     (case parse_item L item of
        Inr (uid, name) \<Rightarrow> parse_items L items (dict_set pro_map uid name)
      | Inl e \<Rightarrow>
          if e = KeyError \<or> e = ValueError \<or> e = TypeError then parse_items L items pro_map
          else Inl e)"

text \<open>Lines 95 to 105 of \<^verbatim>\<open>fetch_and_cache_pro_list\<close>: the request, the status check,
  the decoding of the body and the loop. \<open>Inl\<close> is the exception that the outer
  \<^verbatim>\<open>except Exception\<close> will catch, \<open>Inr\<close> the mapping built from the payload.\<close>

definition fetch_remote :: "pylib \<Rightarrow> world \<Rightarrow> pro_map res \<times> world" where
  "fetch_remote L w =
     (let (resp, w1) = requests_get w in
      (case resp of
         NoResponse \<Rightarrow> Inl ConnectionError
       | Response status body \<Rightarrow>
           if raise_for_status status then Inl HTTPError
           else
             (case json_loads L body of
                None \<Rightarrow> Inl JSONDecodeError
              | Some data \<Rightarrow>
                  (case py_iter data of
                     Inl e \<Rightarrow> Inl e
                   | Inr items \<Rightarrow> parse_items L items [])),
       w1))"

definition fetch_and_cache_pro_list :: "pylib \<Rightarrow> world \<Rightarrow> pro_map \<times> world" where
  "fetch_and_cache_pro_list L w =
     (case fetch_remote L w of
        (Inl e, w1) \<Rightarrow> (read_cache L w1, w1)
      | (Inr pro_map, w1) \<Rightarrow>
          (let w2 = write_cache L pro_map w1 in
           (case set_last_pro_update L (clock w2) w2 of
              (Inl e, w3) \<Rightarrow> (read_cache L w3, w3)
            | (Inr u, w3) \<Rightarrow> (pro_map, w3))))"

definition refresh_interval :: real where
  "refresh_interval = 24 * 3600"

text \<open>\<^verbatim>\<open>get_pro_list\<close> raises what \<^verbatim>\<open>get_last_pro_update\<close> raises: nothing in it catches.\<close>

definition get_pro_list :: "pylib \<Rightarrow> bool \<Rightarrow> world \<Rightarrow> pro_map res \<times> world" where
  "get_pro_list L force_refresh w =
     (case get_last_pro_update L w of
        Inl e \<Rightarrow> (Inl e, w)
      | Inr last_update \<Rightarrow>
          if force_refresh \<or> clock w - last_update > refresh_interval then
            (let (pro_map, w1) = fetch_and_cache_pro_list L w in
             if pro_map \<noteq> [] then (Inr pro_map, w1) else (Inr (read_cache L w1), w1))
          else (Inr (read_cache L w), w))"

section \<open>\<^verbatim>\<open>telemetry_listener.py\<close>\<close>

text \<open>
  What the iRacing SDK object shows during one iteration of the loop, and the
  \<^verbatim>\<open>_running\<close> flag at the loop head. An item read \<^verbatim>\<open>self.ir[name]\<close> returns an
  object or raises.
\<close>

datatype read = Value pyval | Raises pyexc

record snapshot =
  running :: bool
  is_initialized :: bool
  is_connected :: bool
  SessionState :: read
  IsOnTrack :: read
  DriverInfo :: read

text \<open>The dict appended to \<^verbatim>\<open>pro_drivers\<close>, and the two Qt signals.\<close>

record entry =
  UserID :: int
  Name :: pyval
  Description :: pyval
  CarNumber :: pyval

datatype signal = session_active bool | drivers_updated "entry list"

text \<open>Lines 91 to 97: the two reads, with \<^verbatim>\<open>except KeyError\<close> setting both to 0.\<close>

definition read_state :: "snapshot \<Rightarrow> (pyval \<times> pyval) res" where
  "read_state t =
     (case SessionState t of
        Raises e \<Rightarrow> if e = KeyError then Inr (PInt 0, PInt 0) else Inl e
      | Value session_state \<Rightarrow>
          (case IsOnTrack t of
             Raises e \<Rightarrow> if e = KeyError then Inr (PInt 0, PInt 0) else Inl e
           | Value is_on_track \<Rightarrow> Inr (session_state, is_on_track)))"

text \<open>Lines 105 to 114: \<^verbatim>\<open>drivers\<close>, the empty list after any exception.\<close>

definition read_drivers :: "snapshot \<Rightarrow> pyval" where
  "read_drivers t =
     (case DriverInfo t of
        Raises e \<Rightarrow> PList []
      | Value driver_info \<Rightarrow>
          (case driver_info of
             PDict d \<Rightarrow> (case map_of d ''Drivers'' of Some v \<Rightarrow> v | None \<Rightarrow> PList [])
           | _ \<Rightarrow> PList []))"

text \<open>
  Lines 120 to 131, the body of the \<^verbatim>\<open>try\<close> inside the loop over the drivers:
  \<open>Inr None\<close> when the driver is not in the pro list, \<open>Inr (Some e)\<close> when an entry is
  appended. \<^verbatim>\<open>entry = pro_map[uid]\<close> is a value of the mapping that \<^verbatim>\<open>get_pro_list\<close>
  returned, a \<^verbatim>\<open>str\<close>, and \<^verbatim>\<open>entry.get\<close> is called on it.
\<close>

definition driver_entry :: "pro_map \<Rightarrow> pyval \<Rightarrow> entry option res" where
  "driver_entry pro_map drv =
     (case py_get drv ''UserID'' PNone of
        Inl e \<Rightarrow> Inl e
      | Inr u \<Rightarrow>
          (case py_int u of
             Inl e \<Rightarrow> Inl e
           | Inr uid \<Rightarrow>
               (case map_of pro_map uid of
                  None \<Rightarrow> Inr None
                | Some name \<Rightarrow>
                    (case py_get (PStr name) ''Name'' (PStr []) of
                       Inl e \<Rightarrow> Inl e
                     | Inr n \<Rightarrow>
                         (case py_get (PStr name) ''Description'' (PStr []) of
                            Inl e \<Rightarrow> Inl e
                          | Inr d \<Rightarrow>
                              (case py_get drv ''CarNumber'' (PStr []) of
                                 Inl e \<Rightarrow> Inl e
                               | Inr c \<Rightarrow>
                                   Inr (Some \<lparr>UserID = uid, Name = n, Description = d,
                                              CarNumber = c\<rparr>)))))))"

text \<open>The loop \<^verbatim>\<open>for drv in drivers\<close> with \<^verbatim>\<open>except Exception: continue\<close>.\<close>

fun pro_drivers :: "pro_map \<Rightarrow> pyval list \<Rightarrow> entry list \<Rightarrow> entry list" where
  "pro_drivers pro_map [] acc = acc"
| "pro_drivers pro_map (drv # drivers) acc =
     (case driver_entry pro_map drv of
        Inr (Some e) \<Rightarrow> pro_drivers pro_map drivers (acc @ [e])
      | _ \<Rightarrow> pro_drivers pro_map drivers acc)"

definition sleep :: "real \<Rightarrow> world \<Rightarrow> world" where
  "sleep seconds w = w\<lparr>clock := clock w + seconds\<rparr>"

text \<open>
  The body of the outer \<^verbatim>\<open>try\<close> (lines 85 to 139): the exception that leaves it, if
  any, the signals emitted in order, and the world afterwards.
\<close>

definition tick_body :: "pylib \<Rightarrow> real \<Rightarrow> snapshot \<Rightarrow> world \<Rightarrow> unit res \<times> signal list \<times> world" where
  "tick_body L poll_interval t w =
     (if \<not> (is_initialized t \<and> is_connected t) then
        (Inr (), [session_active False], sleep poll_interval w)
      else
        (case read_state t of
           Inl e \<Rightarrow> (Inl e, [], w)
         | Inr (session_state, is_on_track) \<Rightarrow>
             if py_eq_int session_state 4 \<and> py_eq_int is_on_track 1 then
               (case get_pro_list L False w of
                  (Inl e, w1) \<Rightarrow> (Inl e, [session_active True], w1)
                | (Inr pro_map, w1) \<Rightarrow>
                    (case py_iter (read_drivers t) of
                       Inl e \<Rightarrow> (Inl e, [session_active True], w1)
                     | Inr drivers \<Rightarrow>
                         (Inr (),
                          [session_active True, drivers_updated (pro_drivers pro_map drivers [])],
                          sleep poll_interval w1)))
             else
               (Inr (), [session_active False, drivers_updated []], sleep poll_interval w)))"

text \<open>One iteration of the \<^verbatim>\<open>while\<close> loop: the handler of the outer \<^verbatim>\<open>try\<close> logs and
  sleeps.\<close>

definition tick :: "pylib \<Rightarrow> real \<Rightarrow> snapshot \<Rightarrow> world \<Rightarrow> signal list \<times> world" where
  "tick L poll_interval t w =
     (case tick_body L poll_interval t w of
        (Inl e, sigs, w1) \<Rightarrow> (sigs, sleep poll_interval w1)
      | (Inr u, sigs, w1) \<Rightarrow> (sigs, w1))"

text \<open>
  The subscriber (\<^verbatim>\<open>main.py\<close> connects \<^verbatim>\<open>session_active\<close> to \<^verbatim>\<open>overlay.setVisible\<close> and
  \<^verbatim>\<open>drivers_updated\<close> to \<^verbatim>\<open>overlay.update_pro_drivers\<close>): whether the overlay is shown and
  the entry list it received last. The overlay is created with no entries and shown.
\<close>

record overlay =
  visible :: bool
  listed :: "entry list"

fun deliver :: "overlay \<Rightarrow> signal \<Rightarrow> overlay" where
  "deliver v (session_active b) = v\<lparr>visible := b\<rparr>"
| "deliver v (drivers_updated es) = v\<lparr>listed := es\<rparr>"

definition initial_overlay :: overlay where
  "initial_overlay = \<lparr>visible = True, listed = []\<rparr>"

text \<open>
  The loop \<^verbatim>\<open>while self._running\<close> over the snapshots of successive iterations: for each
  iteration the signals it emitted and the subscriber after they were delivered.
\<close>

fun run_loop ::
  "pylib \<Rightarrow> real \<Rightarrow> snapshot list \<Rightarrow> world \<Rightarrow> overlay \<Rightarrow> (signal list \<times> overlay) list" where
  "run_loop L poll_interval [] w v = []"
| "run_loop L poll_interval (t # ts) w v =
     (if \<not> running t then []
      else
        (let (sigs, w1) = tick L poll_interval t w;
             v1 = foldl deliver v sigs
         in (sigs, v1) # run_loop L poll_interval ts w1 v1))"

section \<open>Concrete documents for the examples\<close>

text \<open>
  The closed examples below need \<^verbatim>\<open>json\<close> on a handful of documents. \<open>example_dumps\<close>
  lists objects with the text \<^verbatim>\<open>json.dump(obj, f, indent=2)\<close> writes for them,
  \<open>example_texts\<close> lists texts with the object \<^verbatim>\<open>json.load\<close> returns for them; every
  other text fails to parse in \<open>example_lib\<close>, which the examples never rely on.
\<close>

definition alice_carol :: pyval where
  "alice_carol = PDict [(''1'', PStr ''Alice''), (''3'', PStr ''Carol'')]"

definition example_dumps :: "(pyval \<times> string) list" where
  "example_dumps =
     [(PDict [], ''{}''),
      (alice_carol, ''{\<newline>  \"1\": \"Alice\",\<newline>  \"3\": \"Carol\"\<newline>}''),
      (PDict [(''last_pro_update'', PFloat 1000)], ''{\<newline>  \"last_pro_update\": 1000.0\<newline>}''),
      (PDict [(''last_pro_update'', PFloat 5003)], ''{\<newline>  \"last_pro_update\": 5003.0\<newline>}'')]"

definition example_texts :: "(string \<times> pyval) list" where
  "example_texts =
     map (\<lambda>(obj, txt). (txt, obj)) example_dumps @
     [(''[]'', PList []),
      (''[{\"UserID\": 1, \"Name\": \"Alice\"}, {\"UserID\": 3, \"Name\": \"Carol\"}]'',
       PList [PDict [(''UserID'', PInt 1), (''Name'', PStr ''Alice'')],
              PDict [(''UserID'', PInt 3), (''Name'', PStr ''Carol'')]])]"

definition example_lib :: pylib where
  "example_lib =
     \<lparr>json_loads = map_of example_texts,
      json_dumps = (\<lambda>obj. case map_of example_dumps obj of Some txt \<Rightarrow> txt | None \<Rightarrow> []),
      py_repr = (\<lambda>obj. [])\<rparr>"

text \<open>A world with a fresh time stamp (1000, read at 5000), the two pro drivers of the
  specification's example in the cache, and a server that answers 500.\<close>

definition example_world :: world where
  "example_world =
     \<lparr>config_file = Some ''{\<newline>  \"last_pro_update\": 1000.0\<newline>}'',
      cache_file = Some ''{\<newline>  \"1\": \"Alice\",\<newline>  \"3\": \"Carol\"\<newline>}'',
      config_writable = True,
      cache_writable = True,
      clock = 5000,
      remote = Response 500 ''Internal Server Error'',
      fetch_seconds = 3,
      requests_made = 0\<rparr>"

definition example_drivers :: pyval where
  "example_drivers =
     PList [PDict [(''UserID'', PInt 1), (''CarNumber'', PStr ''12'')],
            PDict [(''UserID'', PInt 2), (''CarNumber'', PStr ''7'')],
            PDict [(''UserID'', PInt 3), (''CarNumber'', PStr ''9'')]]"

definition example_snapshot :: snapshot where
  "example_snapshot =
     \<lparr>running = True, is_initialized = True, is_connected = True,
      SessionState = Value (PInt 4), IsOnTrack = Value (PBool True),
      DriverInfo = Value (PDict [(''Drivers'', example_drivers)])\<rparr>"

text \<open>The same world with a server that answers 200 with an empty list, with the two pro
  drivers, and with a configuration file that holds a JSON list.\<close>

definition empty_answer_world :: world where
  "empty_answer_world = example_world\<lparr>remote := Response 200 ''[]''\<rparr>"

definition list_answer_world :: world where
  "list_answer_world =
     example_world\<lparr>remote := Response 200
       ''[{\"UserID\": 1, \"Name\": \"Alice\"}, {\"UserID\": 3, \"Name\": \"Carol\"}]''\<rparr>"

definition broken_config_world :: world where
  "broken_config_world = example_world\<lparr>config_file := Some ''[]''\<rparr>"

text \<open>Two worlds in which the server answers with the two pro drivers: one whose
  configuration file cannot be opened for writing, and one whose stored time stamp is
  5003, the time at which the answer arrives. And a snapshot whose first read raises an
  exception other than KeyError.\<close>

definition readonly_config_world :: world where
  "readonly_config_world = list_answer_world\<lparr>config_writable := False\<rparr>"

definition stamped_now_world :: world where
  "stamped_now_world =
     list_answer_world\<lparr>config_file := Some ''{\<newline>  \"last_pro_update\": 5003.0\<newline>}''\<rparr>"


section \<open>The active flag as the specification words it\<close>




section \<open>Conversions and dictionaries\<close>

lemma digit_val_digit_char: "d < 10 \<Longrightarrow> digit_val (digit_char d) = Some d"
proof -
  assume "d < 10"
  then have "d \<in> {0, 1, 2, 3, 4, 5, 6, 7, 8, 9}" by auto
  then show ?thesis by (auto simp: digit_val_def digit_char_def)
qed

lemma digit_char_plain:
  "d < 10 \<Longrightarrow> \<not> is_space (digit_char d) \<and> digit_char d \<noteq> CHR ''-'' \<and> digit_char d \<noteq> CHR ''+''"
proof -
  assume "d < 10"
  then have "d \<in> {0, 1, 2, 3, 4, 5, 6, 7, 8, 9}" by auto
  then show ?thesis by (auto simp: is_space_def digit_char_def)
qed

lemma parse_dec_digit:
  "digit_val c = Some d \<Longrightarrow> parse_dec acc (c # rest) = parse_dec (acc * 10 + d) rest"
  by (cases rest) auto

lemma parse_dec_digits:
  "parse_dec acc (digits n @ rest) = parse_dec (acc * 10 ^ length (digits n) + n) rest"
proof (induction n arbitrary: acc rest rule: digits.induct)
  case (1 n)
  show ?case
  proof (cases "n < 10")
    case True
    then show ?thesis
      by (simp add: digits.simps [of n] parse_dec_digit digit_val_digit_char)
  next
    case False
    have "parse_dec acc (digits n @ rest)
        = parse_dec acc (digits (n div 10) @ (digit_char (n mod 10) # rest))"
      using False by (simp add: digits.simps [of n])
    also have "\<dots> = parse_dec (acc * 10 ^ length (digits (n div 10)) + n div 10)
                         (digit_char (n mod 10) # rest)"
      using 1 [OF False] by simp
    also have "\<dots> = parse_dec ((acc * 10 ^ length (digits (n div 10)) + n div 10) * 10 + n mod 10) rest"
      by (rule parse_dec_digit) (simp add: digit_val_digit_char)
    also have "(acc * 10 ^ length (digits (n div 10)) + n div 10) * 10 + n mod 10
        = acc * 10 ^ length (digits n) + n"
      using False by (simp add: digits.simps [of n] algebra_simps)
    finally show ?thesis .
  qed
qed

lemma digits_hd: "\<exists>d cs. d < 10 \<and> digits n = digit_char d # cs"
proof (induction n rule: digits.induct)
  case (1 n)
  show ?case
  proof (cases "n < 10")
    case True
    then show ?thesis by (auto simp: digits.simps [of n])
  next
    case False
    with 1 obtain d cs where "d < 10" "digits (n div 10) = digit_char d # cs" by blast
    with False show ?thesis by (auto simp: digits.simps [of n])
  qed
qed

lemma digits_last: "\<exists>d cs. d < 10 \<and> digits n = cs @ [digit_char d]"
proof (cases "n < 10")
  case True
  then have "n < 10 \<and> digits n = [] @ [digit_char n]" by (simp add: digits.simps [of n])
  then show ?thesis by blast
next
  case False
  then have "n mod 10 < 10 \<and> digits n = digits (n div 10) @ [digit_char (n mod 10)]"
    by (simp add: digits.simps [of n])
  then show ?thesis by blast
qed

lemma digits_ends:
  "digits n \<noteq> [] \<and> \<not> is_space (hd (digits n)) \<and> \<not> is_space (last (digits n))"
proof -
  obtain d cs where h: "d < 10" "digits n = digit_char d # cs" using digits_hd by blast
  obtain d' cs' where l: "d' < 10" "digits n = cs' @ [digit_char d']" using digits_last by blast
  have "hd (digits n) = digit_char d" using h by simp
  moreover have "last (digits n) = digit_char d'" using l by simp
  moreover have "digits n \<noteq> []" using h by simp
  ultimately show ?thesis using h(1) l(1) by (simp add: digit_char_plain)
qed

lemma parse_nat_digits: "parse_nat (digits n) = Some n"
proof -
  obtain d cs where d: "d < 10" and eq: "digits n = digit_char d # cs"
    using digits_hd by blast
  have "parse_dec 0 (digits n @ []) = parse_dec (0 * 10 ^ length (digits n) + n) []"
    by (rule parse_dec_digits)
  then have "parse_dec 0 (digits n) = Some n" by simp
  moreover have "parse_dec 0 (digit_char d # cs) = parse_dec (0 * 10 + d) cs"
    using d by (intro parse_dec_digit digit_val_digit_char)
  ultimately have "parse_dec d cs = Some n" using eq by simp
  then show ?thesis using d by (simp add: parse_nat_def eq digit_val_digit_char)
qed

lemma strip_id:
  assumes "s \<noteq> []" and "\<not> is_space (hd s)" and "\<not> is_space (last s)"
  shows "strip s = s"
proof -
  from assms have 1: "dropWhile is_space s = s" by (cases s) auto
  from assms have "rev s \<noteq> []" "\<not> is_space (hd (rev s))" by (auto simp: hd_rev)
  then have "dropWhile is_space (rev s) = rev s" by (cases "rev s") auto
  with 1 show ?thesis by (simp add: strip_def)
qed

lemma int_of_str_str_int: "int_of_str (str_int k) = Inr k"
proof (cases "k < 0")
  case True
  have "strip (CHR ''-'' # digits (nat (- k))) = CHR ''-'' # digits (nat (- k))"
    using digits_ends [of "nat (- k)"] by (intro strip_id) (simp_all add: is_space_def)
  with True show ?thesis by (simp add: int_of_str_def str_int_def parse_nat_digits)
next
  case False
  obtain d cs where h: "d < 10" "digits (nat k) = digit_char d # cs" using digits_hd by blast
  have s: "strip (digits (nat k)) = digits (nat k)"
    using digits_ends [of "nat k"] by (intro strip_id) simp_all
  have "parse_nat (digit_char d # cs) = Some (nat k)"
    using parse_nat_digits [of "nat k"] h by simp
  with False h s show ?thesis
    by (simp add: int_of_str_def str_int_def digit_char_plain)
qed

lemma str_int_inj: "str_int a = str_int b \<Longrightarrow> a = b"
  by (metis int_of_str_str_int sum.inject(2))

lemma update_fresh: "k \<notin> fst ` set d \<Longrightarrow> dict_set d k v = d @ [(k, v)]"
  unfolding dict_set_def by (induction d) auto

lemma foldl_dict_set_distinct:
  "distinct (map fst (d @ xs)) \<Longrightarrow> foldl (\<lambda>d (k, v). dict_set d k v) d xs = d @ xs"
proof (induction xs arbitrary: d)
  case Nil
  then show ?case by simp
next
  case (Cons x xs)
  obtain k v where x: "x = (k, v)" by (cases x)
  from Cons.prems have fresh: "k \<notin> fst ` set d" by (auto simp: x)
  from Cons.prems have "distinct (map fst ((d @ [(k, v)]) @ xs))" by (simp add: x)
  from Cons.IH [OF this] show ?case by (simp add: x update_fresh [OF fresh])
qed

lemma dict_comp_distinct: "distinct (map fst xs) \<Longrightarrow> dict_comp xs = xs"
  using foldl_dict_set_distinct [of "[]" xs] by (simp add: dict_comp_def)

lemma cache_entries_dumped:
  "cache_entries L (map (\<lambda>(k, v). (str_int k, PStr v)) pm) = Inr pm"
  by (induction pm) (auto simp: int_of_str_str_int py_str_def)

lemma dumped_keys_distinct:
  assumes "distinct (map fst pm)"
  shows "distinct (map fst (map (\<lambda>(k, v). (str_int k, PStr v)) pm))"
proof -
  have eq: "map fst (map (\<lambda>(k, v). (str_int k, PStr v)) pm) = map str_int (map fst pm)"
    by (induction pm) auto
  have "inj_on str_int (set (map fst pm))"
    by (rule inj_onI) (rule str_int_inj)
  with assms have "distinct (map str_int (map fst pm))"
    by (rule_tac iffD2 [OF distinct_map]) blast
  then show ?thesis unfolding eq .
qed

section \<open>Effects of the operations on the world\<close>

lemma fetch_remote_world: "snd (fetch_remote L w) = snd (requests_get w)"
  by (simp add: fetch_remote_def split: prod.splits)

lemma fetch_remote_http_error:
  "remote w = Response status body \<Longrightarrow> raise_for_status status \<Longrightarrow>
   fetch_remote L w = (Inl HTTPError, snd (requests_get w))"
  by (simp add: fetch_remote_def requests_get_def)

lemma requests_get_fields:
  "cache_file (snd (requests_get w)) = cache_file w"
  "config_file (snd (requests_get w)) = config_file w"
  "requests_made (snd (requests_get w)) = requests_made w + 1"
  "clock (snd (requests_get w)) = clock w + fetch_seconds w"
  "config_writable (snd (requests_get w)) = config_writable w"
  "cache_writable (snd (requests_get w)) = cache_writable w"
  by (simp_all add: requests_get_def)

lemma read_cache_requests_get [simp]: "read_cache L (snd (requests_get w)) = read_cache L w"
  by (simp add: read_cache_def requests_get_def)

lemma read_config_requests_get [simp]: "read_config L (snd (requests_get w)) = read_config L w"
  by (simp add: read_config_def requests_get_def)

lemma read_config_write_cache [simp]: "read_config L (write_cache L pm w) = read_config L w"
  by (simp add: read_config_def write_cache_def)

lemma read_cache_write_config [simp]: "read_cache L (write_config L cfg w) = read_cache L w"
  by (simp add: read_cache_def write_config_def)

lemma write_cache_fields:
  "config_file (write_cache L pm w) = config_file w"
  "requests_made (write_cache L pm w) = requests_made w"
  "clock (write_cache L pm w) = clock w"
  "config_writable (write_cache L pm w) = config_writable w"
  by (simp_all add: write_cache_def)

lemma set_last_fields:
  "cache_file (snd (set_last_pro_update L ts w)) = cache_file w"
  "requests_made (snd (set_last_pro_update L ts w)) = requests_made w"
  by (simp_all add: set_last_pro_update_def write_config_def split: pyval.splits)

lemma get_last_Inr_dict: "get_last_pro_update L w = Inr lu \<Longrightarrow> \<exists>cfg. read_config L w = PDict cfg"
  by (cases "read_config L w") (simp_all add: get_last_pro_update_def)

lemma fetch_remote_split:
  "fst (fetch_remote L w) = r \<Longrightarrow> fetch_remote L w = (r, snd (requests_get w))"
  by (metis fetch_remote_world prod.collapse)

lemma fetch_and_cache_fail:
  assumes "fst (fetch_remote L w) = Inl e"
  shows "fetch_and_cache_pro_list L w = (read_cache L w, snd (requests_get w))"
  by (simp add: fetch_and_cache_pro_list_def fetch_remote_split [OF assms] requests_get_fields)

lemma fetch_and_cache_ok:
  assumes "fst (fetch_remote L w) = Inr pm"
  shows "snd (fetch_and_cache_pro_list L w)
       = snd (set_last_pro_update L (clock w + fetch_seconds w) (write_cache L pm (snd (requests_get w))))"
  by (simp add: fetch_and_cache_pro_list_def fetch_remote_split [OF assms] Let_def
      write_cache_fields requests_get_fields split: prod.splits sum.splits)

lemma fetch_and_cache_ok_dict:
  assumes "fst (fetch_remote L w) = Inr pm" and "read_config L w = PDict cfg"
  shows "fetch_and_cache_pro_list L w
       = (pm, write_config L (PDict (dict_set cfg ''last_pro_update'' (PFloat (clock w + fetch_seconds w))))
                (write_cache L pm (snd (requests_get w))))"
proof -
  have "read_config L (write_cache L pm (snd (requests_get w))) = PDict cfg"
    using assms(2) by simp
  then show ?thesis
    by (simp add: fetch_and_cache_pro_list_def fetch_remote_split [OF assms(1)] Let_def
        set_last_pro_update_def write_cache_fields requests_get_fields)
qed

lemma fetch_and_cache_requests:
  "requests_made (snd (fetch_and_cache_pro_list L w)) = requests_made w + 1"
proof (cases "fst (fetch_remote L w)")
  case (Inl e)
  then show ?thesis by (simp add: fetch_and_cache_fail requests_get_fields)
next
  case (Inr pm)
  then show ?thesis
    by (simp add: fetch_and_cache_ok set_last_fields write_cache_fields requests_get_fields)
qed

section \<open>The cache and the refresh policy\<close>

lemmas example_defs =
  example_lib_def example_world_def example_texts_def example_dumps_def alice_carol_def

lemmas eval_defs =
  read_cache_def read_config_def write_cache_def write_config_def cache_object_def
  dict_comp_def dict_set_def py_str_def int_of_str_def strip_def is_space_def parse_nat_def
  digit_val_def str_int_def digit_char_def get_last_pro_update_def set_last_pro_update_def
  fetch_remote_def requests_get_def raise_for_status_def parse_item_def
  fetch_and_cache_pro_list_def get_pro_list_def refresh_interval_def

lemma get_pro_list_world:
  "snd (get_pro_list L force_refresh w) =
     (case get_last_pro_update L w of
        Inl e \<Rightarrow> w
      | Inr last_update \<Rightarrow>
          if force_refresh \<or> clock w - last_update > refresh_interval
          then snd (fetch_and_cache_pro_list L w) else w)"
  by (simp add: get_pro_list_def split: sum.splits prod.splits)

text \<open>
  Claim C5. Writing a mapping to the cache and reading the cache back returns the mapping
  that was written, for every mapping from integers to names, the empty one included. The
  mapping is a Python dict (its keys are distinct), the cache file can be opened for
  writing, and \<^verbatim>\<open>json.load\<close> returns for the dumped text the object that was dumped; the
  program's own part of the round trip, the conversions \<^verbatim>\<open>str(k)\<close> on the way out and
  \<^verbatim>\<open>int(k)\<close>, \<^verbatim>\<open>str(v)\<close> on the way in, is proved here.
\<close>

theorem cache_round_trip:
  assumes "distinct (map fst pro_map)"
    and "cache_writable w"
    and "json_loads L (json_dumps L (cache_object pro_map)) = Some (cache_object pro_map)"
  shows "read_cache L (write_cache L pro_map w) = pro_map"
proof -
  let ?items = "map (\<lambda>(k, v). (str_int k, PStr v)) pro_map"
  have obj: "cache_object pro_map = PDict ?items"
    using dumped_keys_distinct [OF assms(1)] by (simp add: cache_object_def dict_comp_distinct)
  have "cache_file (write_cache L pro_map w) = Some (json_dumps L (cache_object pro_map))"
    using assms(2) by (simp add: write_cache_def)
  then have "read_cache L (write_cache L pro_map w) = dict_comp pro_map"
    using assms(3) by (simp add: read_cache_def obj cache_entries_dumped)
  then show ?thesis using assms(1) by (simp add: dict_comp_distinct)
qed

theorem cache_round_trip_witness:
  "read_cache example_lib (write_cache example_lib [(1, ''Alice''), (3, ''Carol'')] example_world)
     = [(1, ''Alice''), (3, ''Carol'')]
   \<and> read_cache example_lib (write_cache example_lib [] example_world) = []"
proof -
  have d: "distinct (map fst [(1 :: int, ''Alice''), (3, ''Carol'')])" by simp
  have w: "cache_writable example_world" by (simp add: example_world_def)
  have o: "cache_object [(1, ''Alice''), (3, ''Carol'')] = alice_carol"
    by (simp add: cache_object_def dict_comp_def dict_set_def str_int_def digits.simps
        digit_char_def alice_carol_def)
  have j: "json_loads example_lib (json_dumps example_lib (cache_object [(1, ''Alice''), (3, ''Carol'')]))
         = Some (cache_object [(1, ''Alice''), (3, ''Carol'')])"
    unfolding o by (simp add: example_lib_def example_texts_def example_dumps_def alice_carol_def)
  have d0: "distinct (map fst ([] :: pro_map))" by simp
  have j0: "json_loads example_lib (json_dumps example_lib (cache_object []))
         = Some (cache_object [])"
    by (simp add: cache_object_def dict_comp_def example_lib_def example_texts_def
        example_dumps_def alice_carol_def)
  show ?thesis
    using cache_round_trip [OF d w j] cache_round_trip [OF d0 w j0] by simp
qed

text \<open>
  Claim C6. When the server answers with an error status (400 to 599, the codes on which
  \<^verbatim>\<open>raise_for_status\<close> raises), a refresh leaves the text of the cache file as it was,
  whatever that text is: both for \<^verbatim>\<open>fetch_and_cache_pro_list\<close> itself and for a call of
  \<^verbatim>\<open>get_pro_list\<close>, forced or not.
\<close>

theorem http_error_keeps_cache:
  assumes "remote w = Response status body" and "400 \<le> status" and "status < 600"
  shows "cache_file (snd (fetch_and_cache_pro_list L w)) = cache_file w
       \<and> cache_file (snd (get_pro_list L force_refresh w)) = cache_file w"
proof -
  have "fst (fetch_remote L w) = Inl HTTPError"
    using assms by (simp add: fetch_remote_http_error raise_for_status_def)
  then have f: "cache_file (snd (fetch_and_cache_pro_list L w)) = cache_file w"
    by (simp add: fetch_and_cache_fail requests_get_fields)
  then have "cache_file (snd (get_pro_list L force_refresh w)) = cache_file w"
    by (simp add: get_pro_list_world split: sum.splits)
  with f show ?thesis by simp
qed

theorem http_error_keeps_cache_witness:
  "cache_file (snd (fetch_and_cache_pro_list example_lib example_world)) = cache_file example_world
   \<and> cache_file (snd (get_pro_list example_lib True example_world)) = cache_file example_world"
proof -
  have r: "remote example_world = Response 500 ''Internal Server Error''"
    by (simp add: example_world_def)
  show ?thesis using http_error_keeps_cache [OF r, of example_lib True] by simp
qed

text \<open>
  Claim C10. A call \<^verbatim>\<open>get_pro_list(force_refresh=False)\<close> made when at most
  \<open>refresh_interval\<close> seconds have passed since the stored time stamp returns exactly
  what \<^verbatim>\<open>_read_cache()\<close> yields and leaves the world as it was: no request is sent, and
  neither the cache file nor the stored time stamp changes.
\<close>

theorem fresh_call_only_reads_cache:
  assumes "get_last_pro_update L w = Inr last_update"
    and "clock w - last_update \<le> refresh_interval"
  shows "get_pro_list L False w = (Inr (read_cache L w), w)"
  using assms by (simp add: get_pro_list_def)

lemma example_last: "get_last_pro_update example_lib example_world = Inr 1000"
  by (simp add: get_last_pro_update_def read_config_def example_defs)

lemma example_cache: "read_cache example_lib example_world = [(1, ''Alice''), (3, ''Carol'')]"
  by (simp add: example_defs read_cache_def dict_comp_def dict_set_def int_of_str_def strip_def
      is_space_def parse_nat_def digit_val_def py_str_def)

theorem fresh_call_only_reads_cache_witness:
  "get_pro_list example_lib False example_world = (Inr [(1, ''Alice''), (3, ''Carol'')], example_world)
   \<and> get_pro_list example_lib False (example_world\<lparr>clock := 87400\<rparr>)
       = (Inr [(1, ''Alice''), (3, ''Carol'')], example_world\<lparr>clock := 87400\<rparr>)"
proof -
  have f: "clock example_world - 1000 \<le> refresh_interval"
    by (simp add: example_world_def refresh_interval_def)
  have l2: "get_last_pro_update example_lib (example_world\<lparr>clock := 87400\<rparr>) = Inr 1000"
    using example_last by (simp add: get_last_pro_update_def read_config_def)
  have f2: "clock (example_world\<lparr>clock := 87400\<rparr>) - 1000 \<le> refresh_interval"
    by (simp add: refresh_interval_def)
  have c2: "read_cache example_lib (example_world\<lparr>clock := 87400\<rparr>) = [(1, ''Alice''), (3, ''Carol'')]"
    using example_cache by (simp add: read_cache_def)
  show ?thesis
    using fresh_call_only_reads_cache [OF example_last f]
      fresh_call_only_reads_cache [OF l2 f2] example_cache c2 by simp
qed

section \<open>The polling loop\<close>

lemma driver_entry_never: "driver_entry pro_map drv \<noteq> Inr (Some e)"
  by (simp add: driver_entry_def split: sum.splits option.splits)

lemma pro_drivers_acc: "pro_drivers pro_map drivers acc = acc"
proof (induction drivers)
  case Nil
  then show ?case by simp
next
  case (Cons drv drivers)
  then show ?case
    using driver_entry_never [of pro_map drv]
    by (auto split: sum.splits option.splits)
qed

lemma tick_disconnected:
  "\<not> (is_initialized t \<and> is_connected t) \<Longrightarrow> fst (tick L p t w) = [session_active False]"
  by (auto simp: tick_def tick_body_def)

lemma tick_signals:
  "fst (tick L p t w) \<in>
     {[], [session_active False], [session_active True],
      [session_active False, drivers_updated []], [session_active True, drivers_updated []]}"
  by (simp add: tick_def tick_body_def pro_drivers_acc split: sum.splits prod.splits)

lemma deliver_keeps_empty:
  "listed v = [] \<Longrightarrow> listed (foldl deliver v (fst (tick L p t w))) = []"
  using tick_signals [of L p t w] by auto



lemma run_loop_nth:
  assumes "i < length (run_loop L p ts w v)"
  shows "i < length ts \<and>
         (\<exists>w' v'. run_loop L p ts w v ! i
                    = (fst (tick L p (ts ! i) w'), foldl deliver v' (fst (tick L p (ts ! i) w')))
                  \<and> (listed v = [] \<longrightarrow> listed v' = []))"
  using assms
proof (induction ts arbitrary: i w v)
  case Nil
  then show ?case by simp
next
  case (Cons t ts)
  from Cons.prems have r: "running t" by (auto split: if_splits)
  obtain sigs w1 where tk: "tick L p t w = (sigs, w1)" by (cases "tick L p t w")
  let ?v1 = "foldl deliver v sigs"
  have unfold: "run_loop L p (t # ts) w v = (sigs, ?v1) # run_loop L p ts w1 ?v1"
    using r by (simp add: tk Let_def)
  show ?case
  proof (cases i)
    case 0
    have "run_loop L p (t # ts) w v ! 0
        = (fst (tick L p t w), foldl deliver v (fst (tick L p t w)))"
      unfolding unfold by (simp add: tk)
    then show ?thesis using 0 by auto
  next
    case (Suc j)
    with Cons.prems unfold have j: "j < length (run_loop L p ts w1 ?v1)" by simp
    from Cons.IH [OF j] obtain w' v' where
      a: "j < length ts"
      and b: "run_loop L p ts w1 ?v1 ! j
              = (fst (tick L p (ts ! j) w'), foldl deliver v' (fst (tick L p (ts ! j) w')))"
      and c: "listed ?v1 = [] \<longrightarrow> listed v' = []" by blast
    have "listed v = [] \<longrightarrow> listed ?v1 = []"
      using deliver_keeps_empty [of v L p t w] by (simp add: tk)
    with c have "listed v = [] \<longrightarrow> listed v' = []" by blast
    with a b show ?thesis unfolding unfold Suc by auto
  qed
qed

section \<open>The refresh policy, continued\<close>

lemmas world_defs = empty_answer_world_def list_answer_world_def broken_config_world_def

text \<open>
  Claim C7. \<^verbatim>\<open>get_pro_list\<close> sends a request exactly when \<open>force_refresh\<close> is true or
  more than 86400 seconds (24 hours) have passed since the stored time stamp: the number of
  requests sent grows by one in that case and stays as it is otherwise. The comparison is
  strict: at exactly 86400 seconds an unforced call returns the world untouched.
\<close>

theorem fetch_iff_forced_or_stale:
  assumes "get_last_pro_update L w = Inr last_update"
  shows "requests_made (snd (get_pro_list L force_refresh w))
           = requests_made w + (if force_refresh \<or> 86400 < clock w - last_update then 1 else 0)
       \<and> (clock w - last_update = 86400 \<longrightarrow> snd (get_pro_list L False w) = w)"
  using assms
  by (simp add: get_pro_list_world refresh_interval_def fetch_and_cache_requests)

theorem fetch_iff_forced_or_stale_witness:
  "requests_made (snd (get_pro_list example_lib False (example_world\<lparr>clock := 87400\<rparr>))) = 0
   \<and> requests_made (snd (get_pro_list example_lib False (example_world\<lparr>clock := 87401\<rparr>))) = 1
   \<and> requests_made (snd (get_pro_list example_lib True example_world)) = 1
   \<and> snd (get_pro_list example_lib False (example_world\<lparr>clock := 87400\<rparr>))
       = example_world\<lparr>clock := 87400\<rparr>"
proof -
  have l: "get_last_pro_update example_lib (example_world\<lparr>clock := c\<rparr>) = Inr 1000" for c
    using example_last by (simp add: get_last_pro_update_def read_config_def)
  have r: "requests_made (example_world\<lparr>clock := c\<rparr>) = 0" for c
    by (simp add: example_world_def)
  have r0: "requests_made example_world = 0" by (simp add: example_world_def)
  have c0: "clock example_world = 5000" by (simp add: example_world_def)
  show ?thesis
    using fetch_iff_forced_or_stale [OF l [of 87400], where force_refresh = False]
      fetch_iff_forced_or_stale [OF l [of 87401], where force_refresh = False]
      fetch_iff_forced_or_stale [OF example_last, where force_refresh = True]
    by (simp add: r r0 c0)
qed

lemma stamped_config_reads_back:
  assumes "config_writable w"
    and "json_loads L (json_dumps L (PDict (dict_set cfg ''last_pro_update'' (PFloat ts))))
           = Some (PDict (dict_set cfg ''last_pro_update'' (PFloat ts)))"
  shows "get_last_pro_update L
           (write_config L (PDict (dict_set cfg ''last_pro_update'' (PFloat ts))) w) = Inr ts"
  using assms
  by (simp add: get_last_pro_update_def read_config_def write_config_def dict_set_def
      update_conv')

lemma example_fetch_list:
  "fst (fetch_remote example_lib list_answer_world) = Inr [(1, ''Alice''), (3, ''Carol'')]"
  by (simp add: list_answer_world_def example_defs fetch_remote_def requests_get_def
      raise_for_status_def parse_item_def dict_set_def py_str_def)

lemma example_fetch_empty: "fst (fetch_remote example_lib empty_answer_world) = Inr []"
  by (simp add: empty_answer_world_def example_defs fetch_remote_def requests_get_def
      raise_for_status_def)

lemma example_fetch_error: "fst (fetch_remote example_lib example_world) = Inl HTTPError"
  by (simp add: example_defs fetch_remote_def requests_get_def raise_for_status_def)

lemma example_config: "read_config example_lib example_world = PDict [(''last_pro_update'', PFloat 1000)]"
  by (simp add: read_config_def example_defs)

lemma example_stamp_reads_back:
  "json_loads example_lib (json_dumps example_lib
      (PDict (dict_set [(''last_pro_update'', PFloat 1000)] ''last_pro_update'' (PFloat 5003))))
   = Some (PDict (dict_set [(''last_pro_update'', PFloat 1000)] ''last_pro_update'' (PFloat 5003)))"
  by (simp add: dict_set_def example_lib_def example_texts_def example_dumps_def alice_carol_def)

text \<open>
  Claim C4, as stated, fails in its second part: a forced refresh whose fetch succeeds
  need not increase the stored time stamp. When the configuration file cannot be written,
  the write is skipped silently and the stamp stays 1000; when the stored stamp already
  equals the time at which the answer arrives, the stamp is 5003 before and after.
\<close>

theorem forced_success_without_increase:
  "fst (fetch_remote example_lib readonly_config_world) = Inr [(1, ''Alice''), (3, ''Carol'')]
   \<and> get_last_pro_update example_lib readonly_config_world = Inr 1000
   \<and> get_last_pro_update example_lib
        (snd (get_pro_list example_lib True readonly_config_world)) = Inr 1000
   \<and> fst (fetch_remote example_lib stamped_now_world) = Inr [(1, ''Alice''), (3, ''Carol'')]
   \<and> get_last_pro_update example_lib stamped_now_world = Inr 5003
   \<and> get_last_pro_update example_lib
        (snd (get_pro_list example_lib True stamped_now_world)) = Inr 5003"
  by (simp add: readonly_config_world_def stamped_now_world_def list_answer_world_def
      example_defs eval_defs digits.simps)

text \<open>
  Claim C4, amended. A call \<^verbatim>\<open>get_pro_list(force_refresh=True)\<close> sends a request whatever
  the stored time stamp is. If the fetch fails, the configuration file and with it the
  stored time stamp stay as they were. If the fetch succeeds and the configuration file
  cannot be written, they stay as they were too. If the fetch succeeds and the
  configuration file can be written (and \<^verbatim>\<open>json.load\<close> reads the written configuration
  back), the stored time stamp becomes the value of \<^verbatim>\<open>time.time()\<close> after the request,
  \<open>clock w + fetch_seconds w\<close>, whatever the old stamp was.
\<close>

theorem forced_refresh_stamps:
  assumes "read_config L w = PDict cfg"
    and "get_last_pro_update L w = Inr last_update"
  shows "requests_made (snd (get_pro_list L True w)) = requests_made w + 1
       \<and> (\<forall>e. fst (fetch_remote L w) = Inl e \<longrightarrow>
             config_file (snd (get_pro_list L True w)) = config_file w
             \<and> get_last_pro_update L (snd (get_pro_list L True w)) = Inr last_update)
       \<and> (\<forall>pro_map. fst (fetch_remote L w) = Inr pro_map \<and> \<not> config_writable w \<longrightarrow>
             config_file (snd (get_pro_list L True w)) = config_file w
             \<and> get_last_pro_update L (snd (get_pro_list L True w)) = Inr last_update)
       \<and> (\<forall>pro_map. fst (fetch_remote L w) = Inr pro_map
             \<and> config_writable w
             \<and> json_loads L (json_dumps L
                  (PDict (dict_set cfg ''last_pro_update'' (PFloat (clock w + fetch_seconds w)))))
                 = Some (PDict (dict_set cfg ''last_pro_update'' (PFloat (clock w + fetch_seconds w))))
             \<longrightarrow>
             get_last_pro_update L (snd (get_pro_list L True w)) = Inr (clock w + fetch_seconds w))"
proof -
  have w': "snd (get_pro_list L True w) = snd (fetch_and_cache_pro_list L w)"
    using assms(2) by (simp add: get_pro_list_world)
  have 1: "requests_made (snd (get_pro_list L True w)) = requests_made w + 1"
    by (simp add: w' fetch_and_cache_requests)
  have 2: "config_file (snd (get_pro_list L True w)) = config_file w
         \<and> get_last_pro_update L (snd (get_pro_list L True w)) = Inr last_update"
    if "fst (fetch_remote L w) = Inl e" for e
  proof -
    have "snd (get_pro_list L True w) = snd (requests_get w)"
      using that by (simp add: w' fetch_and_cache_fail)
    then show ?thesis
      using assms(2) by (simp add: requests_get_fields get_last_pro_update_def)
  qed
  have 3: "config_file (snd (get_pro_list L True w)) = config_file w
         \<and> get_last_pro_update L (snd (get_pro_list L True w)) = Inr last_update"
    if "fst (fetch_remote L w) = Inr pro_map" and "\<not> config_writable w" for pro_map
  proof -
    have c: "config_file (snd (get_pro_list L True w)) = config_file w"
      using that(2)
      by (simp add: w' fetch_and_cache_ok_dict [OF that(1) assms(1)] write_config_def
          write_cache_fields requests_get_fields)
    then have "read_config L (snd (get_pro_list L True w)) = read_config L w"
      by (simp add: read_config_def)
    with c show ?thesis using assms(2) by (simp add: get_last_pro_update_def)
  qed
  have 4: "get_last_pro_update L (snd (get_pro_list L True w)) = Inr (clock w + fetch_seconds w)"
    if "fst (fetch_remote L w) = Inr pro_map" and "config_writable w"
      and "json_loads L (json_dumps L
             (PDict (dict_set cfg ''last_pro_update'' (PFloat (clock w + fetch_seconds w)))))
           = Some (PDict (dict_set cfg ''last_pro_update'' (PFloat (clock w + fetch_seconds w))))"
    for pro_map
  proof -
    have "config_writable (write_cache L pro_map (snd (requests_get w)))"
      using that(2) by (simp add: write_cache_fields requests_get_fields)
    from stamped_config_reads_back [OF this that(3)] show ?thesis
      by (simp add: w' fetch_and_cache_ok_dict [OF that(1) assms(1)])
  qed
  from 1 2 3 4 show ?thesis by blast
qed

theorem forced_refresh_stamps_witness:
  "requests_made (snd (get_pro_list example_lib True list_answer_world)) = 1
   \<and> get_last_pro_update example_lib list_answer_world = Inr 1000
   \<and> get_last_pro_update example_lib (snd (get_pro_list example_lib True list_answer_world)) = Inr 5003
   \<and> requests_made (snd (get_pro_list example_lib True example_world)) = 1
   \<and> config_file (snd (get_pro_list example_lib True example_world)) = config_file example_world
   \<and> config_file (snd (get_pro_list example_lib True readonly_config_world))
       = config_file readonly_config_world"
proof -
  have c: "read_config example_lib list_answer_world = PDict [(''last_pro_update'', PFloat 1000)]"
    using example_config by (simp add: list_answer_world_def read_config_def)
  have l: "get_last_pro_update example_lib list_answer_world = Inr 1000"
    using example_last by (simp add: list_answer_world_def get_last_pro_update_def read_config_def)
  have cr: "read_config example_lib readonly_config_world = PDict [(''last_pro_update'', PFloat 1000)]"
    using c by (simp add: readonly_config_world_def read_config_def)
  have lr: "get_last_pro_update example_lib readonly_config_world = Inr 1000"
    using l by (simp add: readonly_config_world_def get_last_pro_update_def read_config_def)
  have fr: "fst (fetch_remote example_lib readonly_config_world) = Inr [(1, ''Alice''), (3, ''Carol'')]"
    using example_fetch_list
    by (simp add: readonly_config_world_def fetch_remote_def requests_get_def split: prod.splits)
  have f: "config_writable list_answer_world" "\<not> config_writable readonly_config_world"
    "clock list_answer_world + fetch_seconds list_answer_world = 5003"
    "requests_made list_answer_world = 0" "requests_made example_world = 0"
    by (simp_all add: readonly_config_world_def list_answer_world_def example_world_def)
  show ?thesis
    using forced_refresh_stamps [OF c l] forced_refresh_stamps [OF example_config example_last]
      forced_refresh_stamps [OF cr lr]
      example_fetch_list example_fetch_error example_stamp_reads_back l fr
    by (simp add: f)
qed

text \<open>
  Claim C3, as stated, fails: when the fetch succeeds with an empty mapping the success
  path has already run. With the two pro drivers in the cache and a server that answers
  200 with an empty list, a refresh overwrites the cache file with the empty mapping and
  moves the time stamp from 1000 to 5003, and the call returns the empty mapping, not the
  mapping that was in the cache.
\<close>

theorem empty_fetch_is_persisted:
  "fst (fetch_remote example_lib empty_answer_world) = Inr []
   \<and> read_cache example_lib empty_answer_world = [(1, ''Alice''), (3, ''Carol'')]
   \<and> get_last_pro_update example_lib empty_answer_world = Inr 1000
   \<and> fst (get_pro_list example_lib True empty_answer_world) = Inr []
   \<and> cache_file (snd (get_pro_list example_lib True empty_answer_world)) = Some ''{}''
   \<and> cache_file (snd (get_pro_list example_lib True empty_answer_world)) \<noteq> cache_file empty_answer_world
   \<and> get_last_pro_update example_lib (snd (get_pro_list example_lib True empty_answer_world)) = Inr 5003"
  by (simp add: empty_answer_world_def example_defs eval_defs)

text \<open>
  Claim C3, amended. When a refresh is attempted and the fetch fails, nothing is written
  and the call returns the mapping read from the cache. When the fetch succeeds, the
  success path runs whether or not the mapping is empty: the mapping is dumped to the
  cache file and the configuration is written with \<^verbatim>\<open>last_pro_update\<close> set to the value of
  \<^verbatim>\<open>time.time()\<close> after the request, each write taking effect when its file can be opened
  for writing, so that the stored time stamp is then that time. The call returns the fresh
  mapping when it is not empty and otherwise the mapping read from the cache after the
  write.
\<close>

theorem refresh_outcomes:
  assumes "read_config L w = PDict cfg"
    and "get_last_pro_update L w = Inr last_update"
    and "force_refresh \<or> clock w - last_update > refresh_interval"
  shows "(\<forall>e. fst (fetch_remote L w) = Inl e \<longrightarrow>
            get_pro_list L force_refresh w = (Inr (read_cache L w), snd (requests_get w))
            \<and> cache_file (snd (requests_get w)) = cache_file w
            \<and> config_file (snd (requests_get w)) = config_file w)
       \<and> (\<forall>pro_map. fst (fetch_remote L w) = Inr pro_map \<longrightarrow>
            (let stamped = PDict (dict_set cfg ''last_pro_update''
                                    (PFloat (clock w + fetch_seconds w)));
                 w3 = write_config L stamped (write_cache L pro_map (snd (requests_get w)))
             in get_pro_list L force_refresh w
                  = (Inr (if pro_map \<noteq> [] then pro_map else read_cache L w3), w3)
                \<and> (cache_writable w \<longrightarrow>
                     cache_file w3 = Some (json_dumps L (cache_object pro_map)))
                \<and> (config_writable w \<longrightarrow> config_file w3 = Some (json_dumps L stamped))
                \<and> (config_writable w \<and> json_loads L (json_dumps L stamped) = Some stamped \<longrightarrow>
                     get_last_pro_update L w3 = Inr (clock w + fetch_seconds w))))"
proof -
  let ?stamped = "PDict (dict_set cfg ''last_pro_update'' (PFloat (clock w + fetch_seconds w)))"
  have a: "get_pro_list L force_refresh w = (Inr (read_cache L w), snd (requests_get w))"
    if "fst (fetch_remote L w) = Inl e" for e
    using assms(2,3) that by (auto simp: get_pro_list_def fetch_and_cache_fail)
  have b: "get_pro_list L force_refresh w
             = (Inr (if pro_map \<noteq> [] then pro_map
                     else read_cache L (write_config L ?stamped
                            (write_cache L pro_map (snd (requests_get w))))),
                write_config L ?stamped (write_cache L pro_map (snd (requests_get w))))"
    if "fst (fetch_remote L w) = Inr pro_map" for pro_map
    using assms(2,3)
    by (auto simp: get_pro_list_def fetch_and_cache_ok_dict [OF that assms(1)])
  have c: "cache_writable w \<longrightarrow>
           cache_file (write_config L ?stamped (write_cache L pro_map (snd (requests_get w))))
             = Some (json_dumps L (cache_object pro_map))" for pro_map
    by (simp add: write_config_def write_cache_def requests_get_def)
  have d: "config_writable w \<longrightarrow>
           config_file (write_config L ?stamped (write_cache L pro_map (snd (requests_get w))))
             = Some (json_dumps L ?stamped)" for pro_map
    by (simp add: write_config_def write_cache_def requests_get_def)
  have e: "config_writable w \<and> json_loads L (json_dumps L ?stamped) = Some ?stamped \<longrightarrow>
           get_last_pro_update L
             (write_config L ?stamped (write_cache L pro_map (snd (requests_get w))))
             = Inr (clock w + fetch_seconds w)" for pro_map
  proof
    assume h: "config_writable w \<and> json_loads L (json_dumps L ?stamped) = Some ?stamped"
    then have "config_writable (write_cache L pro_map (snd (requests_get w)))"
      by (simp add: write_cache_fields requests_get_fields)
    from stamped_config_reads_back [OF this] h
    show "get_last_pro_update L
            (write_config L ?stamped (write_cache L pro_map (snd (requests_get w))))
          = Inr (clock w + fetch_seconds w)" by blast
  qed
  from a b c d e show ?thesis by (simp add: requests_get_fields Let_def)
qed

theorem refresh_outcomes_witness:
  "get_pro_list example_lib True example_world
     = (Inr [(1, ''Alice''), (3, ''Carol'')], snd (requests_get example_world))
   \<and> fst (get_pro_list example_lib True empty_answer_world) = Inr []
   \<and> cache_file (snd (get_pro_list example_lib True empty_answer_world)) = Some ''{}''
   \<and> get_last_pro_update example_lib (snd (get_pro_list example_lib True empty_answer_world))
       = Inr 5003
   \<and> fst (get_pro_list example_lib True list_answer_world) = Inr [(1, ''Alice''), (3, ''Carol'')]
   \<and> get_last_pro_update example_lib (snd (get_pro_list example_lib True list_answer_world))
       = Inr 5003"
proof -
  have c: "read_config example_lib empty_answer_world = PDict [(''last_pro_update'', PFloat 1000)]"
    "read_config example_lib list_answer_world = PDict [(''last_pro_update'', PFloat 1000)]"
    using example_config by (simp_all add: world_defs read_config_def)
  have l: "get_last_pro_update example_lib empty_answer_world = Inr 1000"
    "get_last_pro_update example_lib list_answer_world = Inr 1000"
    using example_last
    by (simp_all add: world_defs get_last_pro_update_def read_config_def)
  have t: "True \<or> clock w - 1000 > refresh_interval" for w by simp
  have f: "cache_writable empty_answer_world" "config_writable empty_answer_world"
    "config_writable list_answer_world"
    "clock empty_answer_world + fetch_seconds empty_answer_world = 5003"
    "clock list_answer_world + fetch_seconds list_answer_world = 5003"
    by (simp_all add: world_defs example_world_def)
  have o: "json_dumps example_lib (cache_object []) = ''{}''"
    by (simp add: cache_object_def dict_comp_def example_lib_def example_dumps_def)
  have e: "read_cache example_lib
             (write_config example_lib
                (PDict (dict_set [(''last_pro_update'', PFloat 1000)] ''last_pro_update'' (PFloat 5003)))
                (write_cache example_lib [] (snd (requests_get empty_answer_world)))) = []"
    by (simp add: empty_answer_world_def example_defs eval_defs)
  show ?thesis
    using refresh_outcomes [OF example_config example_last t]
      refresh_outcomes [OF c(1) l(1) t] refresh_outcomes [OF c(2) l(2) t]
      example_fetch_error example_fetch_empty example_fetch_list example_cache
      example_stamp_reads_back e
    by (simp add: Let_def f o)
qed

section \<open>The watcher\<close>

text \<open>
  Claim C1 does not hold of the code. In the specification's example (live entities 1, 2
  and 3 with cars 12, 7 and 9, and the mapping 1 to Alice, 3 to Carol, which is what
  \<^verbatim>\<open>get_pro_list\<close> returns here) the watcher is active, and the list it emits is empty.
  The values of the mapping are strings, \<^verbatim>\<open>entry.get("Name", "")\<close> raises AttributeError
  on a string, and \<^verbatim>\<open>except Exception: continue\<close> drops the driver: entity 1 is dropped
  like entity 2.
\<close>

theorem example_emits_no_entries:
  "get_pro_list example_lib False example_world
     = (Inr [(1, ''Alice''), (3, ''Carol'')], example_world)
   \<and> py_iter (read_drivers example_snapshot) = py_iter example_drivers
   \<and> driver_entry [(1, ''Alice''), (3, ''Carol'')]
        (PDict [(''UserID'', PInt 1), (''CarNumber'', PStr ''12'')]) = Inl AttributeError
   \<and> driver_entry [(1, ''Alice''), (3, ''Carol'')]
        (PDict [(''UserID'', PInt 2), (''CarNumber'', PStr ''7'')]) = Inr None
   \<and> fst (tick example_lib (1 / 5) example_snapshot example_world)
        = [session_active True, drivers_updated []]"
proof -
  have g: "get_pro_list example_lib False example_world
             = (Inr [(1, ''Alice''), (3, ''Carol'')], example_world)"
    using example_last example_cache
    by (simp add: get_pro_list_def refresh_interval_def example_world_def)
  have d: "py_iter (read_drivers example_snapshot) = py_iter example_drivers"
    by (simp add: read_drivers_def example_snapshot_def)
  have c: "is_initialized example_snapshot \<and> is_connected example_snapshot"
    by (simp add: example_snapshot_def)
  have s: "read_state example_snapshot = Inr (PInt 4, PBool True)"
    by (simp add: read_state_def example_snapshot_def)
  have t: "fst (tick example_lib (1 / 5) example_snapshot example_world)
             = [session_active True, drivers_updated []]"
    by (simp add: tick_def tick_body_def c s g d example_drivers_def driver_entry_def)
  show ?thesis using g d t by (simp add: driver_entry_def)
qed




text \<open>
  Claim C8. In every iteration of the loop in which the source is not initialized or not
  connected, exactly one signal is emitted, the active flag with the value false, and the
  entry list the subscriber holds after that iteration is empty (and the overlay hidden).
  No entry list is emitted in such an iteration; the list is empty because every list the
  loop has emitted before is empty and the overlay starts with none.
\<close>

theorem disconnected_tick_inactive_and_empty:
  assumes "i < length (run_loop L p ts w initial_overlay)"
    and "\<not> (is_initialized (ts ! i) \<and> is_connected (ts ! i))"
  shows "fst (run_loop L p ts w initial_overlay ! i) = [session_active False]
       \<and> \<not> visible (snd (run_loop L p ts w initial_overlay ! i))
       \<and> listed (snd (run_loop L p ts w initial_overlay ! i)) = []"
proof -
  from run_loop_nth [OF assms(1)] obtain w' v' where
    r: "run_loop L p ts w initial_overlay ! i
       = (fst (tick L p (ts ! i) w'), foldl deliver v' (fst (tick L p (ts ! i) w')))"
    and e: "listed initial_overlay = [] \<longrightarrow> listed v' = []"
    by blast
  have "listed v' = []" using e by (simp add: initial_overlay_def)
  then show ?thesis
    using tick_disconnected [OF assms(2), of L p w'] by (simp add: r)
qed

theorem disconnected_tick_inactive_and_empty_witness:
  "run_loop example_lib (1 / 5)
      [example_snapshot, example_snapshot\<lparr>is_connected := False\<rparr>] example_world initial_overlay ! 1
   = ([session_active False], \<lparr>visible = False, listed = []\<rparr>)"
proof -
  let ?ts = "[example_snapshot, example_snapshot\<lparr>is_connected := False\<rparr>]"
  let ?r = "run_loop example_lib (1 / 5) ?ts example_world initial_overlay"
  have g: "get_pro_list example_lib False example_world
             = (Inr [(1, ''Alice''), (3, ''Carol'')], example_world)"
    using example_last example_cache
    by (simp add: get_pro_list_def refresh_interval_def example_world_def)
  have t1: "tick example_lib (1 / 5) example_snapshot example_world
          = ([session_active True, drivers_updated []], sleep (1 / 5) example_world)"
    by (simp add: tick_def tick_body_def g read_state_def read_drivers_def
        example_snapshot_def example_drivers_def driver_entry_def)
  have t2: "tick example_lib (1 / 5) (example_snapshot\<lparr>is_connected := False\<rparr>) w'
          = ([session_active False], sleep (1 / 5) w')" for w'
    by (simp add: tick_def tick_body_def example_snapshot_def)
  have r: "running example_snapshot" by (simp add: example_snapshot_def)
  have len: "length ?r = 2"
    by (simp add: t1 t2 r Let_def)
  have i: "(1 :: nat) < length ?r" using len by simp
  have s: "\<not> (is_initialized (?ts ! 1) \<and> is_connected (?ts ! 1))" by simp
  obtain sigs v1 where p: "?r ! 1 = (sigs, v1)" by (cases "?r ! 1")
  have "sigs = [session_active False] \<and> \<not> visible v1 \<and> listed v1 = []"
    using disconnected_tick_inactive_and_empty [OF i s] p by simp
  then have "(sigs, v1) = ([session_active False], \<lparr>visible = False, listed = []\<rparr>)"
    by (cases v1) simp
  with p show ?thesis by simp
qed

text \<open>
  Claim C9, as stated, fails: the handler of the outer \<^verbatim>\<open>try\<close> logs and sleeps and emits
  nothing. In the example world with a configuration file that holds a JSON list,
  \<^verbatim>\<open>get_last_pro_update\<close> raises AttributeError after the flag was emitted with the value
  true: the iteration emits that one signal, no flag with the value false and no entry
  list, and the overlay stays visible.
\<close>

theorem exception_tick_emits_active:
  "fst (tick_body example_lib (1 / 5) example_snapshot broken_config_world) = Inl AttributeError
   \<and> fst (tick example_lib (1 / 5) example_snapshot broken_config_world) = [session_active True]
   \<and> visible (foldl deliver initial_overlay
        (fst (tick example_lib (1 / 5) example_snapshot broken_config_world)))"
proof -
  have g: "get_pro_list example_lib False broken_config_world = (Inl AttributeError, broken_config_world)"
    by (simp add: get_pro_list_def get_last_pro_update_def read_config_def broken_config_world_def
        example_defs)
  have b: "tick_body example_lib (1 / 5) example_snapshot broken_config_world
         = (Inl AttributeError, [session_active True], broken_config_world)"
    by (simp add: tick_body_def g read_state_def example_snapshot_def)
  show ?thesis by (simp add: tick_def b)
qed

text \<open>
  Claim C9, amended. An exception that leaves the body of an iteration is caught inside
  the loop: the handler sleeps one interval and emits nothing, so the iteration's signals
  are those emitted before the exception (none, or the active flag with the value true),
  the entry list the subscriber holds is unchanged, and the loop goes on with the next
  iteration.
\<close>

theorem exception_tick_is_caught:
  assumes "fst (tick_body L p t w) = Inl e" and "running t"
  shows "(fst (tick L p t w) = [] \<or> fst (tick L p t w) = [session_active True])
       \<and> snd (tick L p t w) = sleep p (snd (snd (tick_body L p t w)))
       \<and> listed (foldl deliver v (fst (tick L p t w))) = listed v
       \<and> run_loop L p (t # ts) w v
           = (fst (tick L p t w), foldl deliver v (fst (tick L p t w)))
             # run_loop L p ts (snd (tick L p t w)) (foldl deliver v (fst (tick L p t w)))"
proof -
  obtain sigs w1 where b: "tick_body L p t w = (Inl e, sigs, w1)"
    using assms(1) by (cases "tick_body L p t w") auto
  have s: "sigs = [] \<or> sigs = [session_active True]"
    using b by (auto simp: tick_body_def split: if_splits sum.splits prod.splits)
  have t: "tick L p t w = (sigs, sleep p w1)" by (simp add: tick_def b)
  have l: "listed (foldl deliver v sigs) = listed v" using s by auto
  show ?thesis using s l assms(2) by (simp add: t b Let_def)
qed

theorem exception_tick_is_caught_witness:
  "run_loop example_lib (1 / 5) [example_snapshot, example_snapshot\<lparr>running := False\<rparr>]
      broken_config_world initial_overlay
   = [([session_active True], initial_overlay)]"
proof -
  have g: "get_pro_list example_lib False broken_config_world = (Inl AttributeError, broken_config_world)"
    by (simp add: get_pro_list_def get_last_pro_update_def read_config_def broken_config_world_def
        example_defs)
  have b: "tick_body example_lib (1 / 5) example_snapshot broken_config_world
         = (Inl AttributeError, [session_active True], broken_config_world)"
    by (simp add: tick_body_def g read_state_def example_snapshot_def)
  have e: "fst (tick_body example_lib (1 / 5) example_snapshot broken_config_world) = Inl AttributeError"
    by (simp add: b)
  have r: "running example_snapshot" by (simp add: example_snapshot_def)
  have t: "tick example_lib (1 / 5) example_snapshot broken_config_world
         = ([session_active True], sleep (1 / 5) broken_config_world)"
    by (simp add: tick_def b)
  show ?thesis
    using exception_tick_is_caught [OF e r, of initial_overlay "[example_snapshot\<lparr>running := False\<rparr>]"]
    by (simp add: t initial_overlay_def)
qed

end
